theory Spec2Isabelle
  imports Complex_Main "HOL-Library.List_Lexorder" "HOL-Library.Char_ord"
    "HOL-Library.Product_Lexorder"
begin

section \<open>Values of the runtime\<close>

text \<open>
  Text is compared as JavaScript's relational operators and SQLite's BINARY collation
  compare it: lexicographically, by character code. That is the order \<open><\<close> of
  \<^typ>\<open>string\<close> given by the lexicographic order on lists over the order on characters.
  Dates are stored as text in the form YYYY-MM-DD (the columns are declared DATE, and the
  routes bind and read them as strings), so a date is a \<^typ>\<open>string\<close>.

  A JavaScript number is modelled as a rational; \<open>None\<close> stands for NaN. Rounding to
  binary floating point and the infinities are outside the model.
\<close>

type_synonym jsnum = "rat option"

datatype jsval = JUndefined | JNull | JBool bool | JNum jsnum | JStr string

text \<open>
  \<open>Number(v)\<close>. The conversion of a string to a number is a function of the runtime and is a
  parameter here.
\<close>

definition Number :: "(string \<Rightarrow> jsnum) \<Rightarrow> jsval \<Rightarrow> jsnum" where
  "Number str2num v =
     (case v of
        JUndefined \<Rightarrow> None
      | JNull \<Rightarrow> Some 0
      | JBool b \<Rightarrow> Some (if b then 1 else 0)
      | JNum n \<Rightarrow> n
      | JStr s \<Rightarrow> str2num s)"

text \<open>\<open>x || 0\<close> for a number \<open>x\<close>: NaN and zero are falsy.\<close>

definition or_zero :: "jsnum \<Rightarrow> rat" where
  "or_zero x = (case x of None \<Rightarrow> 0 | Some q \<Rightarrow> if q = 0 then 0 else q)"

subsection \<open>Dates of the runtime\<close>

definition is_digit :: "char \<Rightarrow> bool" where
  "is_digit c = (CHR ''0'' \<le> c \<and> c \<le> CHR ''9'')"

definition digit_val :: "char \<Rightarrow> nat" where
  "digit_val c = of_char c - 48"

definition digits_val :: "string \<Rightarrow> nat" where
  "digits_val ds = foldl (\<lambda>a c. 10 * a + digit_val c) 0 ds"

definition msPerDay :: int where
  "msPerDay = 86400000"

definition is_leap :: "int \<Rightarrow> bool" where
  "is_leap y = ((y mod 4 = 0 \<and> y mod 100 \<noteq> 0) \<or> y mod 400 = 0)"

definition DayFromYear :: "int \<Rightarrow> int" where
  "DayFromYear y =
     365 * (y - 1970) + (y - 1969) div 4 - (y - 1901) div 100 + (y - 1601) div 400"

definition days_before_month :: "int \<Rightarrow> nat \<Rightarrow> int" where
  "days_before_month y m =
     [0, 31, 59, 90, 120, 151, 181, 212, 243, 273, 304, 334] ! (m - 1)
       + (if is_leap y \<and> 2 < m then 1 else 0)"

definition days_in_month :: "int \<Rightarrow> nat \<Rightarrow> nat" where
  "days_in_month y m =
     (if m = 2 then (if is_leap y then 29 else 28)
      else if m = 4 \<or> m = 6 \<or> m = 9 \<or> m = 11 then 30 else 31)"

text \<open>The day number of a calendar date, counted from 1970-01-01 (month 1 to 12).\<close>

definition MakeDay :: "int \<Rightarrow> nat \<Rightarrow> nat \<Rightarrow> int" where
  "MakeDay y m d = DayFromYear y + days_before_month y m + int d - 1"

text \<open>
  \<open>new Date(s).getTime()\<close> for a stored date \<open>s\<close>: a date-only string YYYY-MM-DD of a
  calendar date is midnight UTC of that date, in milliseconds since the epoch. \<open>None\<close> is the
  invalid date (NaN); what the runtime does with text of any other form is implementation
  defined and not modelled: the model gives \<open>None\<close> there, and no statement below is about
  such text.
\<close>

definition Date_parse :: "string \<Rightarrow> int option" where
  "Date_parse s =
     (case s of
        [y1, y2, y3, y4, s1, m1, m2, s2, d1, d2] \<Rightarrow>
          (let y = digits_val [y1, y2, y3, y4]; m = digits_val [m1, m2];
               d = digits_val [d1, d2]
           in if list_all is_digit [y1, y2, y3, y4, m1, m2, d1, d2]
                 \<and> s1 = CHR ''-'' \<and> s2 = CHR ''-''
                 \<and> 1 \<le> m \<and> m \<le> 12 \<and> 1 \<le> d \<and> d \<le> days_in_month (int y) m
              then Some (msPerDay * MakeDay (int y) m d)
              else None)
      | _ \<Rightarrow> None)"

text \<open>
  \<open>a < b\<close> and \<open>a > b\<close> on Date objects compare the time values; a comparison with an
  invalid date is false.
\<close>

definition date_lt :: "int \<Rightarrow> int option \<Rightarrow> bool" where
  "date_lt t d = (case d of None \<Rightarrow> False | Some u \<Rightarrow> t < u)"

definition date_gt :: "int \<Rightarrow> int option \<Rightarrow> bool" where
  "date_gt t d = (case d of None \<Rightarrow> False | Some u \<Rightarrow> t > u)"

text \<open>
  The calendar date of a day number: the inverse of \<open>MakeDay\<close>, computed in eras of 400
  years that begin on 1 March.
\<close>

definition civil_from_days :: "int \<Rightarrow> int \<times> nat \<times> nat" where
  "civil_from_days n =
     (let z = n + 719468;
          era = z div 146097;
          doe = z - era * 146097;
          yoe = (doe - doe div 1460 + doe div 36524 - doe div 146096) div 365;
          doy = doe - (365 * yoe + yoe div 4 - yoe div 100);
          mp = (5 * doy + 2) div 153;
          d = doy - (153 * mp + 2) div 5 + 1;
          m = (if mp < 10 then mp + 3 else mp - 9);
          y = yoe + era * 400 + (if m \<le> 2 then 1 else 0)
      in (y, nat m, nat d))"

definition digit_char :: "nat \<Rightarrow> char" where
  "digit_char k = ''0123456789'' ! (k mod 10)"

text \<open>The last \<open>w\<close> decimal digits of \<open>n\<close>: a number padded with zeros to the width \<open>w\<close>.\<close>

fun digits_of :: "nat \<Rightarrow> nat \<Rightarrow> string" where
  "digits_of 0 n = []"
| "digits_of (Suc w) n = digits_of w (n div 10) @ [digit_char n]"




text \<open>
  The date part of \<open>new Date(t).toISOString()\<close>, that is \<open>toISOString().split('T')[0]\<close>:
  the UTC calendar date of the time value, with a year outside 0 to 9999 written with a
  sign and six digits.
\<close>

definition toISOString_date :: "int \<Rightarrow> string" where
  "toISOString_date t =
     (case civil_from_days (t div msPerDay) of
        (y, m, d) \<Rightarrow>
          (if 0 \<le> y \<and> y \<le> 9999 then digits_of 4 (nat y)
           else (if y < 0 then ''-'' else ''+'') @ digits_of 6 (nat \<bar>y\<bar>))
            @ ''-'' @ digits_of 2 m @ ''-'' @ digits_of 2 d)"



text \<open>\<open>xs.findIndex(p)\<close>: the first index whose element satisfies \<open>p\<close>, or -1.\<close>

fun findIndex :: "('a \<Rightarrow> bool) \<Rightarrow> 'a list \<Rightarrow> int" where
  "findIndex P [] = - 1"
| "findIndex P (x # xs) =
     (if P x then 0 else (let i = findIndex P xs in if i < 0 then - 1 else i + 1))"

section \<open>The store\<close>

text \<open>
  The tables of the schema with the columns the routes read or write; password hashes and
  the creation timestamps filled in by the store are left out. Every table is the list of
  its rows in insertion order, and each AUTOINCREMENT key has its sequence counter.
\<close>

record user =
  id_u :: int
  email :: string
  gender :: "string option"
  is_admin :: bool

record entry =
  id_e :: int
  user_id :: int
  entry_date :: string
  km_run :: rat
  hours :: rat
  pace :: "rat option"

record upload =
  id_up :: int
  up_user_id :: int
  entry_id :: "int option"
  filename :: string
  originalname :: string
  mimetype :: string
  up_size :: int

record event =
  id_ev :: int
  name :: string
  start_date :: string
  end_date :: string
  category :: string
  gender_restriction :: string
  km_goal :: rat
  is_ended :: bool
  created_by :: int

record event_participant =
  id_ep :: int
  event_id :: int
  ep_user_id :: int

record event_closed_date =
  id_ecd :: int
  ecd_event_id :: int
  closed_date :: string
  ecd_created_by :: int

datatype sqlite_error =
  SQLITE_CONSTRAINT_UNIQUE | SQLITE_CONSTRAINT_NOTNULL | SQLITE_BUSY | SQLITE_IOERR

text \<open>
  The statements the routes send to the store, with their parameters. Any of them may fail
  in the driver; \<open>fault\<close> says which do, and with what error.
\<close>

datatype stmt =
    SelectEvent int
  | SelectParticipant int int
  | SelectGender int
  | InsertParticipant int int
  | SelectRanking string string int
  | SelectStanding string string int
  | SelectEvents int string
  | SelectEventDates int
  | SelectClosedDate int string
  | InsertEntry int string
  | InsertUpload int int
  | InsertClosedDate int string
  | DeleteClosedDate int string
  | SelectEntries int string string
  | SelectTop10 string string
  | SelectEntryOwned int int
  | SelectEntryById int
  | UpdateEntryOwned int int
  | UpdateEntryById int

record db =
  users :: "user list"
  entries :: "entry list"
  uploads :: "upload list"
  events :: "event list"
  event_participants :: "event_participant list"
  event_closed_dates :: "event_closed_date list"
  seq_entries :: int
  seq_uploads :: int
  seq_event_participants :: int
  seq_event_closed_dates :: int
  fault :: "stmt \<Rightarrow> sqlite_error option"

text \<open>Running a statement: the driver's error, or the result computed on the tables.\<close>

definition run :: "db \<Rightarrow> stmt \<Rightarrow> 'a \<Rightarrow> sqlite_error + 'a" where
  "run d q result = (case fault d q of Some err \<Rightarrow> Inl err | None \<Rightarrow> Inr result)"

section \<open>Responses\<close>

text \<open>A row of the ranking of an event.\<close>

record rank_row =
  r_id :: int
  r_email :: string
  total_km :: rat
  entry_count :: nat

text \<open>A row of the per-event ranking computed for the list of events.\<close>

record standing_row =
  s_id :: int
  s_total_km :: rat
  s_total_hours :: rat
  s_total_days :: nat

text \<open>A row of the query for the list of events.\<close>

record listed_event =
  l_event :: event
  created_by_email :: string
  has_joined :: bool

text \<open>
  An element of the list of events in the response. The three totals are absent
  (\<open>None\<close>) for an event the user has not joined.
\<close>

record event_view =
  v_listed :: listed_event
  user_rank :: "int option"
  total_participants :: nat
  user_total_km :: "rat option"
  user_total_hours :: "rat option"
  user_total_days :: "nat option"

text \<open>A row of the list of entries of a month.\<close>

record entry_row =
  er_id :: int
  er_date :: string
  er_km :: rat
  er_hours :: rat
  er_pace :: "rat option"
  er_upload_id :: "int option"
  er_filename :: "string option"
  er_originalname :: "string option"
  er_mimetype :: "string option"

text \<open>A row of the top 10 of a month.\<close>

record top_row =
  t_user_id :: int
  t_email :: string
  t_total_km :: rat

datatype body =
    Error string
  | Ok
  | OkParticipant int
  | OkEntry int
  | OkClosedDate int
  | Ranking event "rank_row list" rat
  | Events "event_view list"
  | Entries "entry_row list" string
  | Top10 string "top_row list"

type_synonym response = "nat \<times> body"

section \<open>Joining an event\<close>

text \<open>\<open>SELECT * FROM events WHERE id = ?\<close>\<close>

definition select_event :: "db \<Rightarrow> int \<Rightarrow> sqlite_error + event option" where
  "select_event d eventId =
     run d (SelectEvent eventId) (find (\<lambda>ev. id_ev ev = eventId) (events d))"

text \<open>\<open>SELECT id FROM event_participants WHERE event_id = ? AND user_id = ?\<close>\<close>

definition select_participant :: "db \<Rightarrow> int \<Rightarrow> int \<Rightarrow> sqlite_error + int option" where
  "select_participant d eventId userId =
     run d (SelectParticipant eventId userId)
       (map_option id_ep
          (find (\<lambda>ep. event_id ep = eventId \<and> ep_user_id ep = userId)
             (event_participants d)))"

text \<open>\<open>SELECT gender FROM users WHERE id = ?\<close>; the column is nullable.\<close>

definition select_gender :: "db \<Rightarrow> int \<Rightarrow> sqlite_error + string option option" where
  "select_gender d userId =
     run d (SelectGender userId)
       (map_option gender (find (\<lambda>u. id_u u = userId) (users d)))"

text \<open>
  \<open>INSERT INTO event_participants (event_id, user_id) VALUES (?, ?)\<close>, under the table's
  \<open>UNIQUE(event_id, user_id)\<close>. The result is the new row's id (\<open>this.lastID\<close>) and the
  store after the insert.
\<close>

definition insert_participant :: "db \<Rightarrow> int \<Rightarrow> int \<Rightarrow> sqlite_error + (int \<times> db)" where
  "insert_participant d eventId userId =
     (case fault d (InsertParticipant eventId userId) of
        Some err \<Rightarrow> Inl err
      | None \<Rightarrow>
          if list_ex (\<lambda>ep. event_id ep = eventId \<and> ep_user_id ep = userId)
               (event_participants d)
          then Inl SQLITE_CONSTRAINT_UNIQUE
          else
            (let pid = seq_event_participants d + 1
             in Inr (pid,
                  d\<lparr>event_participants :=
                       event_participants d
                         @ [\<lparr>id_ep = pid, event_id = eventId, ep_user_id = userId\<rparr>],
                     seq_event_participants := pid\<rparr>)))"

text \<open>The text of a value inside a template literal: \<open>null\<close> prints as null.\<close>

definition template_text :: "string option \<Rightarrow> string" where
  "template_text g = (case g of None \<Rightarrow> ''null'' | Some x \<Rightarrow> x)"

text \<open>
  \<open>POST /api/events/:id/join\<close>, for an authenticated user. \<open>now\<close> is \<open>new Date().getTime()\<close>.
  The handler is a chain of callbacks, and the event loop serves other requests between
  them: \<open>others\<close> is what those requests do to the store between the duplicate pre-check
  and the insert. The result is the response and the store after the handler's own write.
\<close>

definition join_event_among ::
  "(db \<Rightarrow> db) \<Rightarrow> int \<Rightarrow> db \<Rightarrow> int \<Rightarrow> int \<Rightarrow> response \<times> db" where
  "join_event_among others now d eventId userId =
     (if eventId \<le> 0 then ((400, Error ''Invalid event ID''), d)
      else case select_event d eventId of
        Inl err \<Rightarrow> ((500, Error ''Database error''), d)
      | Inr None \<Rightarrow> ((404, Error ''Event not found''), d)
      | Inr (Some ev) \<Rightarrow>
          (let phTime = now + 8 * 60 * 60 * 1000;
               startDate = Date_parse (start_date ev);
               endDate = Date_parse (end_date ev)
           in if date_lt phTime startDate
              then ((400, Error ''Event has not started yet''), d)
              else if date_gt phTime endDate
              then ((400, Error ''Event has already ended''), d)
              else case select_participant d eventId userId of
                Inl err \<Rightarrow> ((500, Error ''Database error''), d)
              | Inr (Some existing) \<Rightarrow>
                  ((400, Error ''You have already joined this event''), d)
              | Inr None \<Rightarrow>
                  (case select_gender d userId of
                     Inl err \<Rightarrow> ((500, Error ''Database error''), d)
                   | Inr None \<Rightarrow> ((404, Error ''User not found''), d)
                   | Inr (Some g) \<Rightarrow>
                       if gender_restriction ev \<noteq> ''both''
                            \<and> Some (gender_restriction ev) \<noteq> g
                       then ((403, Error (''This event is exclusive to ''
                                @ gender_restriction ev
                                @ '' participants only. You are ''
                                @ template_text g @ ''.'')), d)
                       else (case insert_participant (others d) eventId userId of
                               Inl err \<Rightarrow>
                                 ((500, Error ''Failed to join event''), others d)
                             | Inr (pid, d') \<Rightarrow> ((200, OkParticipant pid), d')))))"

text \<open>The handler with no other request in between.\<close>

definition join_event :: "int \<Rightarrow> db \<Rightarrow> int \<Rightarrow> int \<Rightarrow> response \<times> db" where
  "join_event = join_event_among (\<lambda>d. d)"

section \<open>Submitting entries\<close>

text \<open>
  The handlers below are the routes after \<open>requireAuth\<close> or \<open>requireAdmin\<close> has admitted
  the request: \<open>userId\<close> is \<open>req.session.userId\<close>. A field of the request body is a
  \<^typ>\<open>jsval\<close>; the date field is a string or missing, and \<open>!date\<close> holds for a missing and
  for an empty date.
\<close>

record multer_file =
  f_filename :: string
  f_originalname :: string
  f_mimetype :: string
  f_size :: int

definition missing :: "string option \<Rightarrow> bool" where
  "missing date = (case date of None \<Rightarrow> True | Some s \<Rightarrow> s = [])"

text \<open>\<open>Number(km) || 0\<close>\<close>

definition kmNum :: "(string \<Rightarrow> jsnum) \<Rightarrow> jsval \<Rightarrow> rat" where
  "kmNum str2num km = or_zero (Number str2num km)"

text \<open>\<open>Number(hours) || 0\<close>\<close>

definition hoursNum :: "(string \<Rightarrow> jsnum) \<Rightarrow> jsval \<Rightarrow> rat" where
  "hoursNum str2num h = or_zero (Number str2num h)"

text \<open>
  \<open>pace === null || pace === undefined || pace === '' ? null : Number(pace)\<close>; the store
  takes NaN as NULL.
\<close>

definition paceNum :: "(string \<Rightarrow> jsnum) \<Rightarrow> jsval \<Rightarrow> rat option" where
  "paceNum str2num p =
     (if p = JNull \<or> p = JUndefined \<or> p = JStr [] then None else Number str2num p)"

text \<open>
  \<open>INSERT INTO entries (user_id, entry_date, km_run, hours, pace) VALUES (?, ?, ?, ?, ?)\<close>.
  The table has no constraint on the sign of \<open>km_run\<close> or \<open>hours\<close>, and none on
  \<open>(user_id, entry_date)\<close>.
\<close>

definition insert_entry ::
  "db \<Rightarrow> int \<Rightarrow> string \<Rightarrow> rat \<Rightarrow> rat \<Rightarrow> rat option \<Rightarrow> sqlite_error + (int \<times> db)" where
  "insert_entry d userId date km h p =
     (case fault d (InsertEntry userId date) of
        Some err \<Rightarrow> Inl err
      | None \<Rightarrow>
          (let entryId = seq_entries d + 1
           in Inr (entryId,
                d\<lparr>entries :=
                     entries d
                       @ [\<lparr>id_e = entryId, user_id = userId, entry_date = date,
                           km_run = km, hours = h, pace = p\<rparr>],
                   seq_entries := entryId\<rparr>)))"

text \<open>
  \<open>INSERT INTO uploads (user_id, entry_id, filename, originalname, mimetype, size)
  VALUES (?, ?, ?, ?, ?, ?)\<close>
\<close>

definition insert_upload ::
  "db \<Rightarrow> int \<Rightarrow> int \<Rightarrow> multer_file \<Rightarrow> sqlite_error + (int \<times> db)" where
  "insert_upload d userId entryId f =
     (case fault d (InsertUpload userId entryId) of
        Some err \<Rightarrow> Inl err
      | None \<Rightarrow>
          (let uploadId = seq_uploads d + 1
           in Inr (uploadId,
                d\<lparr>uploads :=
                     uploads d
                       @ [\<lparr>id_up = uploadId, up_user_id = userId, entry_id = Some entryId,
                           filename = f_filename f, originalname = f_originalname f,
                           mimetype = f_mimetype f, up_size = f_size f\<rparr>],
                   seq_uploads := uploadId\<rparr>)))"

text \<open>
  The tail shared by \<open>POST /api/entries\<close> and \<open>POST /api/events/:id/entry\<close>: the entry is
  inserted, then its upload. An entry whose upload fails stays in the store.
\<close>

definition save_entry ::
  "(string \<Rightarrow> jsnum) \<Rightarrow> db \<Rightarrow> int \<Rightarrow> string \<Rightarrow> jsval \<Rightarrow> jsval \<Rightarrow> jsval \<Rightarrow> multer_file
     \<Rightarrow> response \<times> db" where
  "save_entry str2num d userId date km h p f =
     (case insert_entry d userId date (kmNum str2num km) (hoursNum str2num h)
             (paceNum str2num p) of
        Inl err \<Rightarrow> ((500, Error ''Failed to save entry''), d)
      | Inr (entryId, d1) \<Rightarrow>
          (case insert_upload d1 userId entryId f of
             Inl upErr \<Rightarrow> ((500, Error ''Failed to save screenshot''), d1)
           | Inr (uploadId, d2) \<Rightarrow> ((200, OkEntry entryId), d2)))"

text \<open>\<open>POST /api/entries\<close>\<close>

definition post_entry ::
  "(string \<Rightarrow> jsnum) \<Rightarrow> db \<Rightarrow> int \<Rightarrow> string option \<Rightarrow> jsval \<Rightarrow> jsval \<Rightarrow> jsval
     \<Rightarrow> multer_file option \<Rightarrow> response \<times> db" where
  "post_entry str2num d userId date km h p file =
     (if missing date then ((400, Error ''Missing date''), d)
      else case file of
        None \<Rightarrow> ((400, Error ''Screenshot file is required''), d)
      | Some f \<Rightarrow> save_entry str2num d userId (the date) km h p f)"

text \<open>\<open>SELECT start_date, end_date FROM events WHERE id = ?\<close>\<close>

definition select_event_dates :: "db \<Rightarrow> int \<Rightarrow> sqlite_error + (string \<times> string) option" where
  "select_event_dates d eventId =
     run d (SelectEventDates eventId)
       (map_option (\<lambda>ev. (start_date ev, end_date ev))
          (find (\<lambda>ev. id_ev ev = eventId) (events d)))"

text \<open>\<open>SELECT id FROM event_closed_dates WHERE event_id = ? AND closed_date = ?\<close>\<close>

definition select_closed_date :: "db \<Rightarrow> int \<Rightarrow> string \<Rightarrow> sqlite_error + int option" where
  "select_closed_date d eventId date =
     run d (SelectClosedDate eventId date)
       (map_option id_ecd
          (find (\<lambda>c. ecd_event_id c = eventId \<and> closed_date c = date)
             (event_closed_dates d)))"

text \<open>\<open>POST /api/events/:id/entry\<close>\<close>

definition post_event_entry ::
  "(string \<Rightarrow> jsnum) \<Rightarrow> db \<Rightarrow> int \<Rightarrow> int \<Rightarrow> string option \<Rightarrow> jsval \<Rightarrow> jsval \<Rightarrow> jsval
     \<Rightarrow> multer_file option \<Rightarrow> response \<times> db" where
  "post_event_entry str2num d eventId userId date km h p file =
     (if eventId \<le> 0 then ((400, Error ''Invalid event ID''), d)
      else if missing date then ((400, Error ''Missing date''), d)
      else case file of
        None \<Rightarrow> ((400, Error ''Screenshot file is required''), d)
      | Some f \<Rightarrow>
          (case select_participant d eventId userId of
             Inl err \<Rightarrow> ((500, Error ''Database error''), d)
           | Inr None \<Rightarrow> ((403, Error ''You are not a participant in this event''), d)
           | Inr (Some participant) \<Rightarrow>
               (case select_event_dates d eventId of
                  Inl err \<Rightarrow> ((500, Error ''Database error''), d)
                | Inr None \<Rightarrow> ((404, Error ''Event not found''), d)
                | Inr (Some (startDate, endDate)) \<Rightarrow>
                    if the date < startDate \<or> the date > endDate
                    then ((400, Error ''Entry date must be within event period''), d)
                    else (case select_closed_date d eventId (the date) of
                            Inl err \<Rightarrow> ((500, Error ''Database error''), d)
                          | Inr (Some closedDate) \<Rightarrow>
                              ((400, Error ''Entry submission is closed for this date''), d)
                          | Inr None \<Rightarrow>
                              save_entry str2num d userId (the date) km h p f))))"

section \<open>Editing entries\<close>

text \<open>\<open>SELECT id FROM entries WHERE id = ? AND user_id = ?\<close>\<close>

definition select_entry_owned :: "db \<Rightarrow> int \<Rightarrow> int \<Rightarrow> sqlite_error + int option" where
  "select_entry_owned d entryId userId =
     run d (SelectEntryOwned entryId userId)
       (map_option id_e
          (find (\<lambda>e. id_e e = entryId \<and> user_id e = userId) (entries d)))"

text \<open>\<open>SELECT id FROM entries WHERE id = ?\<close>\<close>

definition select_entry_by_id :: "db \<Rightarrow> int \<Rightarrow> sqlite_error + int option" where
  "select_entry_by_id d entryId =
     run d (SelectEntryById entryId)
       (map_option id_e (find (\<lambda>e. id_e e = entryId) (entries d)))"

text \<open>
  \<open>UPDATE entries SET entry_date = ?, km_run = ?, hours = ?, pace = ? WHERE ...\<close> on the rows
  that satisfy \<open>sel\<close>. A missing date binds NULL and violates \<open>entry_date DATE NOT NULL\<close>
  when a row is to be written. The result is the number of rows changed and the store.
\<close>

definition update_entries ::
  "db \<Rightarrow> stmt \<Rightarrow> (entry \<Rightarrow> bool) \<Rightarrow> string option \<Rightarrow> rat \<Rightarrow> rat \<Rightarrow> rat option
     \<Rightarrow> sqlite_error + (nat \<times> db)" where
  "update_entries d q sel date km h p =
     (case fault d q of
        Some err \<Rightarrow> Inl err
      | None \<Rightarrow>
          if list_ex sel (entries d) \<and> date = None then Inl SQLITE_CONSTRAINT_NOTNULL
          else Inr (length (filter sel (entries d)),
                 d\<lparr>entries :=
                      map (\<lambda>e. if sel e
                                then e\<lparr>entry_date := the date, km_run := km, hours := h,
                                       pace := p\<rparr>
                                else e)
                        (entries d)\<rparr>))"

text \<open>\<open>PUT /api/entries/:id\<close>\<close>

definition put_entry ::
  "(string \<Rightarrow> jsnum) \<Rightarrow> db \<Rightarrow> int \<Rightarrow> int \<Rightarrow> string option \<Rightarrow> jsval \<Rightarrow> jsval \<Rightarrow> jsval
     \<Rightarrow> response \<times> db" where
  "put_entry str2num d entryId userId date km h p =
     (if entryId \<le> 0 then ((400, Error ''Invalid entry ID''), d)
      else case select_entry_owned d entryId userId of
        Inl err \<Rightarrow> ((500, Error ''Database error''), d)
      | Inr None \<Rightarrow> ((404, Error ''Entry not found or not authorized''), d)
      | Inr (Some row) \<Rightarrow>
          (case update_entries d (UpdateEntryOwned entryId userId)
                  (\<lambda>e. id_e e = entryId \<and> user_id e = userId) date
                  (kmNum str2num km) (hoursNum str2num h) (paceNum str2num p) of
             Inl updateErr \<Rightarrow> ((500, Error ''Failed to update entry''), d)
           | Inr (changes, d') \<Rightarrow>
               if changes = 0 then ((404, Error ''Entry not found''), d')
               else ((200, Ok), d')))"

text \<open>\<open>PUT /api/admin/entries/:id\<close>\<close>

definition put_admin_entry ::
  "(string \<Rightarrow> jsnum) \<Rightarrow> db \<Rightarrow> int \<Rightarrow> string option \<Rightarrow> jsval \<Rightarrow> jsval \<Rightarrow> jsval
     \<Rightarrow> response \<times> db" where
  "put_admin_entry str2num d entryId date km h p =
     (if entryId \<le> 0 then ((400, Error ''Invalid entry ID''), d)
      else case select_entry_by_id d entryId of
        Inl err \<Rightarrow> ((500, Error ''Database error''), d)
      | Inr None \<Rightarrow> ((404, Error ''Entry not found''), d)
      | Inr (Some row) \<Rightarrow>
          (case update_entries d (UpdateEntryById entryId) (\<lambda>e. id_e e = entryId) date
                  (kmNum str2num km) (hoursNum str2num h) (paceNum str2num p) of
             Inl updateErr \<Rightarrow> ((500, Error ''Failed to update entry''), d)
           | Inr (changes, d') \<Rightarrow>
               if changes = 0 then ((404, Error ''Entry not found''), d')
               else ((200, Ok), d')))"

section \<open>Closing and reopening dates\<close>






section \<open>Queries\<close>

text \<open>
  The joins and the grouping of the SELECT statements, on lists of rows. A group is a key
  with the rows that have it; the order of groups and of rows with equal sort keys is
  not specified by the store, and no statement below depends on it.
\<close>

definition inner_join :: "'a list \<Rightarrow> 'b list \<Rightarrow> ('a \<Rightarrow> 'b \<Rightarrow> bool) \<Rightarrow> ('a \<times> 'b) list" where
  "inner_join as bs on = concat (map (\<lambda>a. map (Pair a) (filter (on a) bs)) as)"

definition left_join ::
  "'a list \<Rightarrow> 'b list \<Rightarrow> ('a \<Rightarrow> 'b \<Rightarrow> bool) \<Rightarrow> ('a \<times> 'b option) list" where
  "left_join as bs on =
     concat (map (\<lambda>a. case filter (on a) bs of
                         [] \<Rightarrow> [(a, None)]
                       | ms \<Rightarrow> map (\<lambda>b. (a, Some b)) ms) as)"

definition group_by :: "('r \<Rightarrow> 'k) \<Rightarrow> 'r list \<Rightarrow> ('k \<times> 'r list) list" where
  "group_by key rs = map (\<lambda>k. (k, filter (\<lambda>r. key r = k) rs)) (remdups (map key rs))"

text \<open>
  The entries of the rows of a group. The aggregates over columns of \<open>entries\<close> skip the
  rows that a left join filled with NULL.
\<close>

definition joined_entries :: "('a \<times> entry option) list \<Rightarrow> entry list" where
  "joined_entries rows = List.map_filter snd rows"

text \<open>
  The rows of participants, users and entries that both ranking queries aggregate:
  \<open>FROM event_participants ep JOIN users u ON u.id = ep.user_id
  LEFT JOIN entries e ON e.user_id = u.id AND e.entry_date >= ? AND e.entry_date <= ?
  WHERE ep.event_id = ?\<close>
\<close>

definition participant_rows ::
  "db \<Rightarrow> string \<Rightarrow> string \<Rightarrow> int \<Rightarrow> ((event_participant \<times> user) \<times> entry option) list" where
  "participant_rows d startDate endDate eventId =
     filter (\<lambda>((ep, u), e). event_id ep = eventId)
       (left_join
          (inner_join (event_participants d) (users d) (\<lambda>ep u. id_u u = ep_user_id ep))
          (entries d)
          (\<lambda>(ep, u) e. user_id e = id_u u \<and> entry_date e \<ge> startDate
                         \<and> entry_date e \<le> endDate))"

text \<open>
  \<open>SELECT u.id, u.email, COALESCE(SUM(e.km_run), 0) as total_km, COUNT(e.id) as entry_count
  ... GROUP BY u.id, u.email ORDER BY total_km DESC, u.email ASC\<close>
\<close>

definition select_ranking ::
  "db \<Rightarrow> string \<Rightarrow> string \<Rightarrow> int \<Rightarrow> sqlite_error + rank_row list" where
  "select_ranking d startDate endDate eventId =
     run d (SelectRanking startDate endDate eventId)
       (sort_key (\<lambda>r. (- total_km r, r_email r))
          (map (\<lambda>((uid, em), rows).
                  \<lparr>r_id = uid, r_email = em,
                   total_km = sum_list (map km_run (joined_entries rows)),
                   entry_count = length (joined_entries rows)\<rparr>)
             (group_by (\<lambda>((ep, u), e). (id_u u, email u))
                (participant_rows d startDate endDate eventId))))"

text \<open>
  \<open>SELECT u.id, COALESCE(SUM(e.km_run), 0) as total_km,
  COALESCE(SUM(e.hours), 0) as total_hours, COUNT(DISTINCT e.entry_date) as total_days
  ... GROUP BY u.id ORDER BY total_km DESC, u.id ASC\<close>
\<close>

definition select_standing ::
  "db \<Rightarrow> string \<Rightarrow> string \<Rightarrow> int \<Rightarrow> sqlite_error + standing_row list" where
  "select_standing d startDate endDate eventId =
     run d (SelectStanding startDate endDate eventId)
       (sort_key (\<lambda>r. (- s_total_km r, s_id r))
          (map (\<lambda>(uid, rows).
                  \<lparr>s_id = uid,
                   s_total_km = sum_list (map km_run (joined_entries rows)),
                   s_total_hours = sum_list (map hours (joined_entries rows)),
                   s_total_days = length (remdups (map entry_date (joined_entries rows)))\<rparr>)
             (group_by (\<lambda>((ep, u), e). id_u u)
                (participant_rows d startDate endDate eventId))))"

section \<open>The ranking of an event\<close>

text \<open>\<open>GET /api/events/:id/ranking\<close>\<close>

definition get_ranking :: "db \<Rightarrow> int \<Rightarrow> response" where
  "get_ranking d eventId =
     (if eventId \<le> 0 then (400, Error ''Invalid event ID'')
      else case select_event d eventId of
        Inl err \<Rightarrow> (500, Error ''Database error'')
      | Inr None \<Rightarrow> (404, Error ''Event not found'')
      | Inr (Some ev) \<Rightarrow>
          (case select_ranking d (start_date ev) (end_date ev) eventId of
             Inl err \<Rightarrow> (500, Error ''Failed to fetch ranking'')
           | Inr rows \<Rightarrow> (200, Ranking ev rows (km_goal ev))))"

section \<open>The list of events\<close>

text \<open>
  \<open>SELECT e.id, ..., u.email as created_by_email,
  CASE WHEN ep.id IS NOT NULL THEN 1 ELSE 0 END as has_joined
  FROM events e JOIN users u ON u.id = e.created_by
  LEFT JOIN event_participants ep ON ep.event_id = e.id AND ep.user_id = ?
  WHERE e.end_date >= ? ORDER BY e.start_date ASC\<close>
\<close>

definition select_events :: "db \<Rightarrow> int \<Rightarrow> string \<Rightarrow> sqlite_error + listed_event list" where
  "select_events d userId today =
     run d (SelectEvents userId today)
       (sort_key (\<lambda>r. start_date (l_event r))
          (map (\<lambda>((e, u), ep).
                  \<lparr>l_event = e, created_by_email = email u, has_joined = (ep \<noteq> None)\<rparr>)
             (filter (\<lambda>((e, u), ep). end_date e \<ge> today)
                (left_join
                   (inner_join (events d) (users d) (\<lambda>e u. id_u u = created_by e))
                   (event_participants d)
                   (\<lambda>(e, u) ep. event_id ep = id_ev e \<and> ep_user_id ep = userId)))))"

text \<open>The element of the response for one row of the list: the body of \<open>events.map\<close>.\<close>

definition event_with_ranking :: "db \<Rightarrow> int \<Rightarrow> listed_event \<Rightarrow> event_view" where
  "event_with_ranking d userId ev =
     (if \<not> has_joined ev
      then \<lparr>v_listed = ev, user_rank = None, total_participants = 0,
            user_total_km = None, user_total_hours = None, user_total_days = None\<rparr>
      else case select_standing d (start_date (l_event ev)) (end_date (l_event ev))
                  (id_ev (l_event ev)) of
        Inl err \<Rightarrow>
          \<lparr>v_listed = ev, user_rank = None, total_participants = 0,
           user_total_km = Some 0, user_total_hours = Some 0, user_total_days = Some 0\<rparr>
      | Inr ranking \<Rightarrow>
          (let userRank = findIndex (\<lambda>r. s_id r = userId) ranking + 1;
               userStats = find (\<lambda>r. s_id r = userId) ranking
           in \<lparr>v_listed = ev,
               user_rank = (if userRank > 0 then Some userRank else None),
               total_participants = length ranking,
               user_total_km =
                 Some (case userStats of Some r \<Rightarrow> s_total_km r | None \<Rightarrow> 0),
               user_total_hours =
                 Some (case userStats of Some r \<Rightarrow> s_total_hours r | None \<Rightarrow> 0),
               user_total_days =
                 Some (case userStats of Some r \<Rightarrow> s_total_days r | None \<Rightarrow> 0)\<rparr>))"

text \<open>\<open>GET /api/events\<close>\<close>

definition list_events :: "int \<Rightarrow> db \<Rightarrow> int \<Rightarrow> response" where
  "list_events now d userId =
     (let phTime = now + 8 * 60 * 60 * 1000;
          today = toISOString_date phTime
      in case select_events d userId today of
           Inl err \<Rightarrow> (500, Error ''Failed to fetch events'')
         | Inr rows \<Rightarrow> (200, Events (map (event_with_ranking d userId) rows)))"

section \<open>The entries and the top 10 of a month\<close>








section \<open>Notions of the statements\<close>

text \<open>
  The constraints that the schema declares on the tables of users and participants: the
  primary key of \<open>users\<close>, \<open>email TEXT UNIQUE\<close>, \<open>UNIQUE(event_id, user_id)\<close> and the foreign
  key from \<open>event_participants.user_id\<close> to \<open>users.id\<close>.
\<close>

definition schema_ok :: "db \<Rightarrow> bool" where
  "schema_ok d =
     (distinct (map id_u (users d)) \<and> distinct (map email (users d))
      \<and> distinct (map (\<lambda>ep. (event_id ep, ep_user_id ep)) (event_participants d))
      \<and> list_all (\<lambda>ep. list_ex (\<lambda>u. id_u u = ep_user_id ep) (users d))
           (event_participants d))"

text \<open>The EventParticipant rows of an event.\<close>

definition participants_of :: "db \<Rightarrow> int \<Rightarrow> event_participant list" where
  "participants_of d eventId = filter (\<lambda>ep. event_id ep = eventId) (event_participants d)"

text \<open>
  The qualifying entries of a user for an event: the user's entries dated within the closed
  interval from \<open>startDate\<close> to \<open>endDate\<close>.
\<close>

definition qualifying_entries :: "db \<Rightarrow> string \<Rightarrow> string \<Rightarrow> int \<Rightarrow> entry list" where
  "qualifying_entries d startDate endDate userId =
     filter (\<lambda>e. user_id e = userId \<and> startDate \<le> entry_date e \<and> entry_date e \<le> endDate)
       (entries d)"

text \<open>The user with a given id.\<close>

definition user_of :: "db \<Rightarrow> int \<Rightarrow> user" where
  "user_of d userId = the (find (\<lambda>u. id_u u = userId) (users d))"

text \<open>The rows that the joins of the ranking queries produce for one participant.\<close>

definition rows_for ::
  "db \<Rightarrow> string \<Rightarrow> string \<Rightarrow> event_participant \<Rightarrow> user
     \<Rightarrow> ((event_participant \<times> user) \<times> entry option) list" where
  "rows_for d s e ep u =
     (case filter (\<lambda>x. user_id x = id_u u \<and> entry_date x \<ge> s \<and> entry_date x \<le> e)
             (entries d) of
        [] \<Rightarrow> [((ep, u), None)]
      | ms \<Rightarrow> map (\<lambda>b. ((ep, u), Some b)) ms)"






text \<open>The row of a participant in the ranking of an event, with the totals over the
  qualifying entries.\<close>

definition rank_row_of :: "db \<Rightarrow> string \<Rightarrow> string \<Rightarrow> event_participant \<Rightarrow> rank_row" where
  "rank_row_of d s e ep =
     \<lparr>r_id = ep_user_id ep, r_email = email (user_of d (ep_user_id ep)),
      total_km = sum_list (map km_run (qualifying_entries d s e (ep_user_id ep))),
      entry_count = length (qualifying_entries d s e (ep_user_id ep))\<rparr>"


section \<open>Example stores\<close>

text \<open>
  The scenario of the specification: an event for female participants from 2024-06-01 to
  2024-06-30 with a goal of 50 km, created by the administrator, and two users.
\<close>

definition scenario_event :: event where
  "scenario_event =
     \<lparr>id_ev = 1, name = ''June run'', start_date = ''2024-06-01'',
      end_date = ''2024-06-30'', category = ''advanced'',
      gender_restriction = ''female'', km_goal = 50, is_ended = False, created_by = 3\<rparr>"

definition scenario_users :: "user list" where
  "scenario_users =
     [\<lparr>id_u = 1, email = ''a@x.com'', gender = Some ''female'', is_admin = False\<rparr>,
      \<lparr>id_u = 2, email = ''b@x.com'', gender = Some ''male'', is_admin = False\<rparr>,
      \<lparr>id_u = 3, email = ''admin'', gender = None, is_admin = True\<rparr>]"

definition no_fault :: "stmt \<Rightarrow> sqlite_error option" where
  "no_fault q = None"

definition scenario_store :: db where
  "scenario_store =
     \<lparr>users = scenario_users, entries = [], uploads = [], events = [scenario_event],
      event_participants = [], event_closed_dates = [],
      seq_entries = 0, seq_uploads = 0, seq_event_participants = 0,
      seq_event_closed_dates = 0, fault = no_fault\<rparr>"

text \<open>The same event open to both genders.\<close>

definition open_store :: db where
  "open_store = scenario_store\<lparr>events := [scenario_event\<lparr>gender_restriction := ''both''\<rparr>]\<rparr>"

text \<open>User 1 has joined the event.\<close>

definition joined_store :: db where
  "joined_store =
     scenario_store\<lparr>event_participants := [\<lparr>id_ep = 1, event_id = 1, ep_user_id = 1\<rparr>],
                    seq_event_participants := 1\<rparr>"

text \<open>User 1 has joined and has logged 5 km on 2024-06-10.\<close>

definition logged_store :: db where
  "logged_store =
     joined_store\<lparr>entries := [\<lparr>id_e = 1, user_id = 1, entry_date = ''2024-06-10'',
                                km_run = 5, hours = 1, pace = None\<rparr>],
                  seq_entries := 1\<rparr>"

definition screenshot :: multer_file where
  "screenshot =
     \<lparr>f_filename = ''1718000000000-1.png'', f_originalname = ''run.png'',
      f_mimetype = ''image/png'', f_size = 1024\<rparr>"

text \<open>The runtime's conversion of strings to numbers, on the strings of the examples.\<close>

definition example_str2num :: "string \<Rightarrow> jsnum" where
  "example_str2num s =
     (if s = ''5'' then Some 5 else if s = ''1'' then Some 1
      else if s = ''-5'' then Some (- 5) else if s = ''-1'' then Some (- 1) else None)"

text \<open>
  An event open to both genders with three participants, stored in the order b, a, c.
  Users a and b have 12.5 km each inside the event period, a with an entry dated on the
  last day of the event; b has an entry on the day after the event, and c has only an entry
  on the day before it. User 3, the administrator, has not joined.
\<close>

definition ranking_store :: db where
  "ranking_store =
     \<lparr>users = scenario_users
         @ [\<lparr>id_u = 4, email = ''c@x.com'', gender = Some ''female'', is_admin = False\<rparr>],
      entries =
        [\<lparr>id_e = 1, user_id = 2, entry_date = ''2024-06-01'', km_run = 12.5, hours = 2,
           pace = None\<rparr>,
         \<lparr>id_e = 2, user_id = 1, entry_date = ''2024-06-10'', km_run = 5, hours = 1,
           pace = None\<rparr>,
         \<lparr>id_e = 3, user_id = 1, entry_date = ''2024-06-30'', km_run = 7.5, hours = 1,
           pace = None\<rparr>,
         \<lparr>id_e = 4, user_id = 2, entry_date = ''2024-07-01'', km_run = 100, hours = 9,
           pace = None\<rparr>,
         \<lparr>id_e = 5, user_id = 4, entry_date = ''2024-05-31'', km_run = 3, hours = 1,
           pace = None\<rparr>],
      uploads = [],
      events = [scenario_event\<lparr>gender_restriction := ''both''\<rparr>],
      event_participants =
        [\<lparr>id_ep = 1, event_id = 1, ep_user_id = 2\<rparr>,
         \<lparr>id_ep = 2, event_id = 1, ep_user_id = 1\<rparr>,
         \<lparr>id_ep = 3, event_id = 1, ep_user_id = 4\<rparr>],
      event_closed_dates = [],
      seq_entries = 5, seq_uploads = 0, seq_event_participants = 3,
      seq_event_closed_dates = 0, fault = no_fault\<rparr>"

text \<open>The same store with a driver that fails one statement.\<close>

definition faulty_store :: "stmt \<Rightarrow> db" where
  "faulty_store q = ranking_store\<lparr>fault := no_fault(q := Some SQLITE_IOERR)\<rparr>"

section \<open>Properties of joining\<close>

lemmas date_defs =
  Date_parse_def digits_val_def digit_val_def is_digit_def msPerDay_def MakeDay_def
  DayFromYear_def days_before_month_def days_in_month_def is_leap_def date_lt_def
  date_gt_def

lemmas scenario_defs =
  scenario_store_def scenario_event_def scenario_users_def no_fault_def open_store_def
  joined_store_def logged_store_def screenshot_def example_str2num_def ranking_store_def

lemmas join_defs =
  join_event_def join_event_among_def select_event_def select_participant_def
  select_gender_def insert_participant_def run_def template_text_def

text \<open>
  C1. The join window is meant to be the closed interval of calendar dates from
  \<open>start_date\<close> to \<open>end_date\<close> in Philippine time. The handler compares the shifted
  clock with midnight of \<open>end_date\<close>, so on the last day of the event it answers that the
  event has already ended. At 2024-06-30 04:00 UTC (noon of 2024-06-30 in Philippine time)
  the shifted clock lies on day 19904, the day of the event's \<open>end_date\<close> 2024-06-30; the user
  has no participant row and the event is open to both genders, and the join is refused.
\<close>

theorem join_on_end_date_refused:
  "Date_parse ''2024-06-30'' = Some (msPerDay * 19904)
   \<and> (1719720000000 + 8 * 60 * 60 * 1000) div msPerDay = 19904
   \<and> select_participant open_store 1 1 = Inr None
   \<and> join_event 1719720000000 open_store 1 1
       = ((400, Error ''Event has already ended''), open_store)"
  by (simp add: join_defs date_defs scenario_defs)

text \<open>
  C5. When the pre-check race is lost the unique constraint must surface as a
  distinguishable duplicate error. Two join requests of user 1 for event 1 run together:
  both pass the pre-check on the same store, the other request inserts first, and the
  insert of this request violates \<open>UNIQUE(event_id, user_id)\<close>. The handler answers that
  with status 500 and the text it uses for every failed insert: a driver failure of the
  insert in a request of its own gets the same response.
\<close>

theorem join_lost_race_not_distinguished:
  "insert_participant (snd (join_event 1718424000000 open_store 1 1)) 1 1
     = Inl SQLITE_CONSTRAINT_UNIQUE
   \<and> fst (join_event_among (\<lambda>d. snd (join_event 1718424000000 d 1 1))
             1718424000000 open_store 1 1)
       = (500, Error ''Failed to join event'')
   \<and> fst (join_event 1718424000000
             (open_store\<lparr>fault := no_fault(InsertParticipant 1 1 := Some SQLITE_IOERR)\<rparr>) 1 1)
       = (500, Error ''Failed to join event'')"
  by (simp add: join_defs date_defs scenario_defs)

text \<open>
  C6, as the claim states it: a join that fails only the gender check is answered with
  status 400. User 2 (male) asks on 2024-06-15 to join the event for female participants;
  the event exists, the time is inside the window and the user has not joined. The status
  is 403.
\<close>

theorem join_gender_status_counterexample:
  "select_participant scenario_store 1 2 = Inr None
   \<and> fst (join_event 1718424000000 scenario_store 1 2)
       = (403, Error ''This event is exclusive to female participants only. You are male.'')
   \<and> fst (fst (join_event 1718424000000 scenario_store 1 2)) \<noteq> 400"
  by (simp add: join_defs date_defs scenario_defs)

text \<open>
  C6, amended: whenever a join attempt passes the id, existence, window and duplicate
  checks and fails the gender check (the restriction is not \<open>both\<close> and differs from the
  user's gender), the response has status 403, and its message names the event's
  restriction and the user's own gender. Nothing is written to the store.
\<close>

theorem join_gender_ineligible:
  assumes "0 < eventId"
    and "select_event d eventId = Inr (Some ev)"
    and "\<not> date_lt (now + 8 * 60 * 60 * 1000) (Date_parse (start_date ev))"
    and "\<not> date_gt (now + 8 * 60 * 60 * 1000) (Date_parse (end_date ev))"
    and "select_participant d eventId userId = Inr None"
    and "select_gender d userId = Inr (Some g)"
    and "gender_restriction ev \<noteq> ''both''"
    and "Some (gender_restriction ev) \<noteq> g"
  shows "join_event_among others now d eventId userId
           = ((403, Error (''This event is exclusive to '' @ gender_restriction ev
                 @ '' participants only. You are '' @ template_text g @ ''.'')), d)"
  using assms by (simp add: join_event_among_def)

theorem join_gender_ineligible_witness:
  "join_event_among (\<lambda>d. d) 1718424000000 scenario_store 1 2
     = ((403, Error (''This event is exclusive to '' @ gender_restriction scenario_event
           @ '' participants only. You are '' @ template_text (Some ''male'') @ ''.'')),
        scenario_store)"
proof (rule join_gender_ineligible)
  show "0 < (1::int)" by simp
  show "select_event scenario_store 1 = Inr (Some scenario_event)"
    by (simp add: join_defs scenario_defs)
  show "\<not> date_lt (1718424000000 + 8 * 60 * 60 * 1000) (Date_parse (start_date scenario_event))"
    by (simp add: date_defs scenario_defs)
  show "\<not> date_gt (1718424000000 + 8 * 60 * 60 * 1000) (Date_parse (end_date scenario_event))"
    by (simp add: date_defs scenario_defs)
  show "select_participant scenario_store 1 2 = Inr None"
    by (simp add: join_defs scenario_defs)
  show "select_gender scenario_store 2 = Inr (Some (Some ''male''))"
    by (simp add: join_defs scenario_defs)
  show "gender_restriction scenario_event \<noteq> ''both''"
    by (simp add: scenario_defs)
  show "Some (gender_restriction scenario_event) \<noteq> Some ''male''"
    by (simp add: scenario_defs)
qed

section \<open>Properties of the submission window\<close>

lemma find_None_list_ex: "(find P xs = None) = (\<not> list_ex P xs)"
  by (auto simp add: find_None_iff list_ex_iff)

lemma list_ex_find:
  assumes "list_ex P xs"
  obtains x where "find P xs = Some x"
  using assms by (cases "find P xs") (auto simp: find_None_list_ex)







section \<open>Properties of the stored distances and times\<close>

lemma save_entry_success:
  "save_entry s2n d userId date km h p f = ((200, OkEntry newId), d')
   \<Longrightarrow> entries d' = entries d
         @ [\<lparr>id_e = newId, user_id = userId, entry_date = date,
             km_run = or_zero (Number s2n km), hours = or_zero (Number s2n h),
             pace = paceNum s2n p\<rparr>]"
  by (auto simp: save_entry_def insert_entry_def insert_upload_def kmNum_def hoursNum_def
      Let_def split: option.splits sum.splits)

lemma post_entry_success:
  "post_entry s2n d userId date km h p file = ((200, OkEntry newId), d')
   \<Longrightarrow> entries d' = entries d
         @ [\<lparr>id_e = newId, user_id = userId, entry_date = the date,
             km_run = or_zero (Number s2n km), hours = or_zero (Number s2n h),
             pace = paceNum s2n p\<rparr>]"
  by (auto simp: post_entry_def dest: save_entry_success split: if_splits option.splits)

lemma post_event_entry_success:
  "post_event_entry s2n d eventId userId date km h p file = ((200, OkEntry newId), d')
   \<Longrightarrow> entries d' = entries d
         @ [\<lparr>id_e = newId, user_id = userId, entry_date = the date,
             km_run = or_zero (Number s2n km), hours = or_zero (Number s2n h),
             pace = paceNum s2n p\<rparr>]"
  by (auto simp: post_event_entry_def dest: save_entry_success
      split: if_splits option.splits sum.splits)

lemma update_entries_success:
  "update_entries d q sel date km h p = Inr (n, d')
   \<Longrightarrow> entries d'
       = map (\<lambda>e. if sel e
                  then e\<lparr>entry_date := the date, km_run := km, hours := h, pace := p\<rparr>
                  else e)
           (entries d)"
  by (auto simp: update_entries_def split: option.splits if_splits)

lemma put_entry_success:
  "put_entry s2n d entryId userId date km h p = ((200, Ok), d')
   \<Longrightarrow> entries d'
       = map (\<lambda>e. if id_e e = entryId \<and> user_id e = userId
                  then e\<lparr>entry_date := the date, km_run := or_zero (Number s2n km),
                         hours := or_zero (Number s2n h), pace := paceNum s2n p\<rparr>
                  else e)
           (entries d)"
  by (auto simp: put_entry_def kmNum_def hoursNum_def dest!: update_entries_success
      split: if_splits option.splits sum.splits)

lemma put_admin_entry_success:
  "put_admin_entry s2n d entryId date km h p = ((200, Ok), d')
   \<Longrightarrow> entries d'
       = map (\<lambda>e. if id_e e = entryId
                  then e\<lparr>entry_date := the date, km_run := or_zero (Number s2n km),
                         hours := or_zero (Number s2n h), pace := paceNum s2n p\<rparr>
                  else e)
           (entries d)"
  by (auto simp: put_admin_entry_def kmNum_def hoursNum_def dest!: update_entries_success
      split: if_splits option.splits sum.splits)

lemma or_zero_value: "or_zero x = (case x of None \<Rightarrow> 0 | Some q \<Rightarrow> q)"
  by (simp add: or_zero_def split: option.splits)

lemma or_zero_sign: "(0 \<le> or_zero x) = (x = None \<or> 0 \<le> the x)"
  by (auto simp add: or_zero_def split: option.splits)

lemmas entry_defs =
  post_entry_def post_event_entry_def put_entry_def put_admin_entry_def save_entry_def
  insert_entry_def insert_upload_def update_entries_def select_entry_owned_def
  select_entry_by_id_def select_participant_def select_event_dates_def
  select_closed_date_def run_def missing_def kmNum_def hoursNum_def paceNum_def
  Number_def or_zero_def

text \<open>
  C9, as the claim states it: every path stores only non-negative \<open>km_run\<close> and \<open>hours\<close>.
  The owner of entry 1 edits it with \<open>km\<close> -5 and \<open>hours\<close> -1 in the JSON body, and submits
  a new entry with the form fields -5 and -1. Both requests succeed, and the stored values
  are negative.
\<close>

theorem negative_distance_stored_counterexample:
  "fst (put_entry example_str2num logged_store 1 1 (Some ''2024-06-10'')
          (JNum (Some (- 5))) (JNum (Some (- 1))) JNull) = (200, Ok)
   \<and> map km_run (entries (snd (put_entry example_str2num logged_store 1 1
          (Some ''2024-06-10'') (JNum (Some (- 5))) (JNum (Some (- 1))) JNull))) = [- 5]
   \<and> map hours (entries (snd (put_entry example_str2num logged_store 1 1
          (Some ''2024-06-10'') (JNum (Some (- 5))) (JNum (Some (- 1))) JNull))) = [- 1]
   \<and> fst (post_entry example_str2num logged_store 1 (Some ''2024-06-11'')
          (JStr ''-5'') (JStr ''-1'') JNull (Some screenshot)) = (200, OkEntry 2)
   \<and> map km_run (entries (snd (post_entry example_str2num logged_store 1
          (Some ''2024-06-11'') (JStr ''-5'') (JStr ''-1'') JNull (Some screenshot))))
       = [5, - 5]
   \<and> (- 5 :: rat) < 0"
  by (simp add: entry_defs scenario_defs)

text \<open>
  C9, amended: every entry-creation and entry-update path (generic submission, event
  submission, owner edit, admin edit) that succeeds stores \<open>km_run = Number(km) || 0\<close> and
  \<open>hours = Number(hours) || 0\<close>: the submitted number itself, and 0 for a value that is
  missing or not a number. A stored value is non-negative exactly when the submitted number
  is not negative; no path rejects or changes a negative number.
\<close>

theorem entry_paths_store_coerced_numbers:
  "(fst (post_entry s2n d userId date km h p file) = (200, OkEntry newId) \<longrightarrow>
      entries (snd (post_entry s2n d userId date km h p file))
        = entries d
            @ [\<lparr>id_e = newId, user_id = userId, entry_date = the date,
                km_run = or_zero (Number s2n km), hours = or_zero (Number s2n h),
                pace = paceNum s2n p\<rparr>])
   \<and> (fst (post_event_entry s2n d eventId userId date km h p file) = (200, OkEntry newId) \<longrightarrow>
      entries (snd (post_event_entry s2n d eventId userId date km h p file))
        = entries d
            @ [\<lparr>id_e = newId, user_id = userId, entry_date = the date,
                km_run = or_zero (Number s2n km), hours = or_zero (Number s2n h),
                pace = paceNum s2n p\<rparr>])
   \<and> (fst (put_entry s2n d entryId userId date km h p) = (200, Ok) \<longrightarrow>
      entries (snd (put_entry s2n d entryId userId date km h p))
        = map (\<lambda>e. if id_e e = entryId \<and> user_id e = userId
                   then e\<lparr>entry_date := the date, km_run := or_zero (Number s2n km),
                          hours := or_zero (Number s2n h), pace := paceNum s2n p\<rparr>
                   else e)
            (entries d))
   \<and> (fst (put_admin_entry s2n d entryId date km h p) = (200, Ok) \<longrightarrow>
      entries (snd (put_admin_entry s2n d entryId date km h p))
        = map (\<lambda>e. if id_e e = entryId
                   then e\<lparr>entry_date := the date, km_run := or_zero (Number s2n km),
                          hours := or_zero (Number s2n h), pace := paceNum s2n p\<rparr>
                   else e)
            (entries d))
   \<and> or_zero x = (case x of None \<Rightarrow> 0 | Some q \<Rightarrow> q)
   \<and> (0 \<le> or_zero x) = (x = None \<or> 0 \<le> the x)"
proof (intro conjI impI)
  assume "fst (post_entry s2n d userId date km h p file) = (200, OkEntry newId)"
  then have "post_entry s2n d userId date km h p file
      = ((200, OkEntry newId), snd (post_entry s2n d userId date km h p file))"
    by (simp add: prod_eq_iff)
  then show "entries (snd (post_entry s2n d userId date km h p file))
        = entries d
            @ [\<lparr>id_e = newId, user_id = userId, entry_date = the date,
                km_run = or_zero (Number s2n km), hours = or_zero (Number s2n h),
                pace = paceNum s2n p\<rparr>]"
    by (rule post_entry_success)
next
  assume "fst (post_event_entry s2n d eventId userId date km h p file) = (200, OkEntry newId)"
  then have "post_event_entry s2n d eventId userId date km h p file
      = ((200, OkEntry newId), snd (post_event_entry s2n d eventId userId date km h p file))"
    by (simp add: prod_eq_iff)
  then show "entries (snd (post_event_entry s2n d eventId userId date km h p file))
        = entries d
            @ [\<lparr>id_e = newId, user_id = userId, entry_date = the date,
                km_run = or_zero (Number s2n km), hours = or_zero (Number s2n h),
                pace = paceNum s2n p\<rparr>]"
    by (rule post_event_entry_success)
next
  assume "fst (put_entry s2n d entryId userId date km h p) = (200, Ok)"
  then have "put_entry s2n d entryId userId date km h p
      = ((200, Ok), snd (put_entry s2n d entryId userId date km h p))"
    by (simp add: prod_eq_iff)
  then show "entries (snd (put_entry s2n d entryId userId date km h p))
        = map (\<lambda>e. if id_e e = entryId \<and> user_id e = userId
                   then e\<lparr>entry_date := the date, km_run := or_zero (Number s2n km),
                          hours := or_zero (Number s2n h), pace := paceNum s2n p\<rparr>
                   else e)
            (entries d)"
    by (rule put_entry_success)
next
  assume "fst (put_admin_entry s2n d entryId date km h p) = (200, Ok)"
  then have "put_admin_entry s2n d entryId date km h p
      = ((200, Ok), snd (put_admin_entry s2n d entryId date km h p))"
    by (simp add: prod_eq_iff)
  then show "entries (snd (put_admin_entry s2n d entryId date km h p))
        = map (\<lambda>e. if id_e e = entryId
                   then e\<lparr>entry_date := the date, km_run := or_zero (Number s2n km),
                          hours := or_zero (Number s2n h), pace := paceNum s2n p\<rparr>
                   else e)
            (entries d)"
    by (rule put_admin_entry_success)
next
  show "or_zero x = (case x of None \<Rightarrow> 0 | Some q \<Rightarrow> q)"
    by (rule or_zero_value)
next
  show "(0 \<le> or_zero x) = (x = None \<or> 0 \<le> the x)"
    by (rule or_zero_sign)
qed

theorem entry_paths_store_coerced_numbers_witness:
  "entries (snd (post_entry example_str2num logged_store 1 (Some ''2024-06-11'')
       (JStr ''-5'') (JStr ''1'') JNull (Some screenshot)))
     = entries logged_store
         @ [\<lparr>id_e = 2, user_id = 1, entry_date = ''2024-06-11'', km_run = - 5, hours = 1,
             pace = None\<rparr>]
   \<and> entries (snd (post_event_entry example_str2num logged_store 1 1 (Some ''2024-06-11'')
       (JStr ''-5'') (JStr ''1'') JNull (Some screenshot)))
     = entries logged_store
         @ [\<lparr>id_e = 2, user_id = 1, entry_date = ''2024-06-11'', km_run = - 5, hours = 1,
             pace = None\<rparr>]
   \<and> map km_run (entries (snd (put_entry example_str2num logged_store 1 1
       (Some ''2024-06-11'') (JStr ''-5'') (JStr ''1'') JNull))) = [- 5]
   \<and> map km_run (entries (snd (put_admin_entry example_str2num logged_store 1
       (Some ''2024-06-11'') (JStr ''-5'') (JStr ''1'') JNull))) = [- 5]"
proof -
  have a1: "fst (post_entry example_str2num logged_store 1 (Some ''2024-06-11'')
       (JStr ''-5'') (JStr ''1'') JNull (Some screenshot)) = (200, OkEntry 2)"
    by (simp add: entry_defs scenario_defs)
  have a2: "fst (post_event_entry example_str2num logged_store 1 1 (Some ''2024-06-11'')
       (JStr ''-5'') (JStr ''1'') JNull (Some screenshot)) = (200, OkEntry 2)"
    by (simp add: entry_defs scenario_defs)
  have a3: "fst (put_entry example_str2num logged_store 1 1
       (Some ''2024-06-11'') (JStr ''-5'') (JStr ''1'') JNull) = (200, Ok)"
    by (simp add: entry_defs scenario_defs)
  have a4: "fst (put_admin_entry example_str2num logged_store 1
       (Some ''2024-06-11'') (JStr ''-5'') (JStr ''1'') JNull) = (200, Ok)"
    by (simp add: entry_defs scenario_defs)
  have v: "or_zero (Number example_str2num (JStr ''-5'')) = - 5"
    "or_zero (Number example_str2num (JStr ''1'')) = 1"
    "paceNum example_str2num JNull = None"
    "entries logged_store
       = [\<lparr>id_e = 1, user_id = 1, entry_date = ''2024-06-10'', km_run = 5, hours = 1,
           pace = None\<rparr>]"
    by (simp_all add: Number_def or_zero_def paceNum_def scenario_defs)
  show ?thesis
    using entry_paths_store_coerced_numbers [where ?s2n = example_str2num
        and ?d = logged_store and ?userId = 1 and ?date = "Some ''2024-06-11''"
        and ?km = "JStr ''-5''" and ?h = "JStr ''1''" and ?p = JNull
        and ?file = "Some screenshot" and ?newId = 2 and ?eventId = 1 and ?entryId = 1]
      a1 a2 a3 a4
    by (simp add: v)
qed

section \<open>Properties of the queries\<close>


lemma filter_unique_key:
  assumes "distinct (map f xs)"
  shows "filter (\<lambda>y. f y = k) xs = (case find (\<lambda>y. f y = k) xs of None \<Rightarrow> [] | Some x \<Rightarrow> [x])"
  using assms
proof (induction xs)
  case Nil
  then show ?case by simp
next
  case (Cons a xs)
  show ?case
  proof (cases "f a = k")
    case True
    then have "filter (\<lambda>y. f y = k) xs = []"
      using Cons.prems by (force simp: filter_empty_conv image_iff)
    with True show ?thesis by simp
  next
    case False
    then show ?thesis using Cons by simp
  qed
qed

lemma inner_join_unique:
  assumes "distinct (map f bs)"
  shows "inner_join as bs (\<lambda>a b. f b = g a)
     = concat (map (\<lambda>a. case find (\<lambda>b. f b = g a) bs of None \<Rightarrow> [] | Some b \<Rightarrow> [(a, b)]) as)"
  unfolding inner_join_def
  by (rule arg_cong[where f=concat]) (auto simp: filter_unique_key[OF assms] split: option.splits)

lemma left_join_append: "left_join (xs @ ys) bs on = left_join xs bs on @ left_join ys bs on"
  by (simp add: left_join_def)

lemma left_join_concat: "left_join (concat xss) bs on = concat (map (\<lambda>xs. left_join xs bs on) xss)"
  by (induction xss) (simp_all add: left_join_append, simp add: left_join_def)

lemma filter_concat': "filter P (concat xss) = concat (map (filter P) xss)"
  by (induction xss) simp_all

lemma concat_map_if: "concat (map (\<lambda>x. if P x then f x else []) xs) = concat (map f (filter P xs))"
  by (induction xs) simp_all

lemma left_join_single:
  "left_join [(ep, u)] (entries d) (\<lambda>(ep, u) x. user_id x = id_u u \<and> entry_date x \<ge> s \<and> entry_date x \<le> e) = rows_for d s e ep u"
  by (simp add: left_join_def rows_for_def)

lemma rows_for_fst: "r \<in> set (rows_for d s e ep u) \<Longrightarrow> fst r = (ep, u)"
  by (auto simp: rows_for_def split: list.splits)

lemma rows_for_ne: "rows_for d s e ep u \<noteq> []"
  by (auto simp: rows_for_def split: list.splits)

lemma filter_rows_for:
  "filter (\<lambda>((ep, u), x). event_id ep = eid) (rows_for d s e ep u) = (if event_id ep = eid then rows_for d s e ep u else [])"
  by (auto simp: filter_empty_conv filter_id_conv dest!: rows_for_fst)

lemma participant_rows_nf:
  assumes "distinct (map id_u (users d))"
  shows "participant_rows d s e eid =
    concat (map (\<lambda>ep. case find (\<lambda>u. id_u u = ep_user_id ep) (users d) of None \<Rightarrow> [] | Some u \<Rightarrow> rows_for d s e ep u)
       (filter (\<lambda>ep. event_id ep = eid) (event_participants d)))"
proof -
  have "participant_rows d s e eid =
    concat (map (\<lambda>ep. filter (\<lambda>((ep, u), e). event_id ep = eid)
       (left_join (case find (\<lambda>u. id_u u = ep_user_id ep) (users d) of None \<Rightarrow> [] | Some u \<Rightarrow> [(ep, u)]) (entries d)
          (\<lambda>(ep, u) x. user_id x = id_u u \<and> entry_date x \<ge> s \<and> entry_date x \<le> e))) (event_participants d))"
    unfolding participant_rows_def inner_join_unique[OF assms]
    by (simp add: left_join_concat filter_concat' comp_def)
  also have "\<dots> = concat (map (\<lambda>ep. if event_id ep = eid then (case find (\<lambda>u. id_u u = ep_user_id ep) (users d) of None \<Rightarrow> [] | Some u \<Rightarrow> rows_for d s e ep u) else [])
       (event_participants d))"
    by (rule arg_cong[where f=concat], rule map_cong[OF refl])
       (auto split: option.splits simp: left_join_single filter_rows_for, simp add: left_join_def)
  finally show ?thesis by (simp add: concat_map_if)
qed


lemma remdups_block:
  assumes "ys \<noteq> []" "\<And>y. y \<in> set ys \<Longrightarrow> y = a" "a \<notin> set zs"
  shows "remdups (ys @ zs) = a # remdups zs"
  using assms
proof (induction ys)
  case Nil
  then show ?case by simp
next
  case (Cons y ys)
  show ?case
  proof (cases "ys = []")
    case True
    then show ?thesis using Cons.prems by simp
  next
    case False
    then have "remdups (ys @ zs) = a # remdups zs"
      using Cons by simp
    moreover obtain z where "z \<in> set ys"
      using False by (cases ys) auto
    then have "a \<in> set ys"
      using Cons.prems(2)[of z] by simp
    moreover have "y = a"
      using Cons.prems(2)[of y] by simp
    ultimately show ?thesis by simp
  qed
qed

lemma group_keys:
  assumes "distinct (map k xs)"
    and "\<And>x. x \<in> set xs \<Longrightarrow> block x \<noteq> []"
    and "\<And>x r. x \<in> set xs \<Longrightarrow> r \<in> set (block x) \<Longrightarrow> key r = k x"
  shows "remdups (map key (concat (map block xs))) = map k xs"
  using assms
proof (induction xs)
  case Nil
  then show ?case by simp
next
  case (Cons x xs)
  have ih: "remdups (map key (concat (map block xs))) = map k xs"
    using Cons by simp
  have "k x \<notin> set (map key (concat (map block xs)))"
    using Cons.prems by (auto simp: image_iff)
  moreover have "map key (block x) \<noteq> []" "\<And>y. y \<in> set (map key (block x)) \<Longrightarrow> y = k x"
    using Cons.prems by auto
  ultimately have "remdups (map key (block x) @ map key (concat (map block xs)))
     = k x # remdups (map key (concat (map block xs)))"
    by (intro remdups_block) auto
  then show ?case using ih by simp
qed

lemma group_rows:
  assumes "distinct (map k xs)"
    and "\<And>x r. x \<in> set xs \<Longrightarrow> r \<in> set (block x) \<Longrightarrow> key r = k x"
    and "x \<in> set xs"
  shows "filter (\<lambda>r. key r = k x) (concat (map block xs)) = block x"
  using assms
proof (induction xs)
  case Nil
  then show ?case by simp
next
  case (Cons y ys)
  show ?case
  proof (cases "y = x")
    case True
    have "filter (\<lambda>r. key r = k x) (concat (map block ys)) = []"
      using Cons.prems True by (auto simp: filter_empty_conv image_iff) metis
    moreover have "filter (\<lambda>r. key r = k x) (block x) = block x"
      using Cons.prems True by (auto simp: filter_id_conv)
    ultimately show ?thesis using True by simp
  next
    case False
    then have x: "x \<in> set ys" using Cons.prems by simp
    then have "k y \<noteq> k x" using Cons.prems by (auto simp: image_iff)
    moreover have "\<And>r. r \<in> set (block y) \<Longrightarrow> key r = k y"
      using Cons.prems(2) by simp
    ultimately have "filter (\<lambda>r. key r = k x) (block y) = []"
      by (auto simp: filter_empty_conv)
    moreover have "filter (\<lambda>r. key r = k x) (concat (map block ys)) = block x"
      using Cons x by simp
    ultimately show ?thesis by simp
  qed
qed

lemma group_by_blocks:
  assumes "distinct (map k xs)"
    and "\<And>x. x \<in> set xs \<Longrightarrow> block x \<noteq> []"
    and "\<And>x r. x \<in> set xs \<Longrightarrow> r \<in> set (block x) \<Longrightarrow> key r = k x"
  shows "group_by key (concat (map block xs)) = map (\<lambda>x. (k x, block x)) xs"
proof -
  have 1: "remdups (map key (concat (map block xs))) = map k xs"
    using assms by (rule group_keys)
  have 2: "\<And>x. x \<in> set xs \<Longrightarrow> filter (\<lambda>r. key r = k x) (concat (map block xs)) = block x"
    using assms(1,3) by (rule group_rows)
  show ?thesis
    unfolding group_by_def 1 using 2 by simp
qed


lemma joined_entries_rows_for:
  "joined_entries (rows_for d s e ep u) = qualifying_entries d s e (id_u u)"
  by (auto simp: joined_entries_def rows_for_def qualifying_entries_def List.map_filter_def comp_def
      split: list.splits)

lemma find_user_of:
  assumes "schema_ok d" "ep \<in> set (event_participants d)"
  shows "find (\<lambda>u. id_u u = ep_user_id ep) (users d) = Some (user_of d (ep_user_id ep))"
    and "id_u (user_of d (ep_user_id ep)) = ep_user_id ep"
    and "user_of d (ep_user_id ep) \<in> set (users d)"
proof -
  have "list_ex (\<lambda>u. id_u u = ep_user_id ep) (users d)"
    using assms by (auto simp: schema_ok_def list_all_iff)
  then obtain u where u: "find (\<lambda>u. id_u u = ep_user_id ep) (users d) = Some u"
    by (rule list_ex_find)
  then show "find (\<lambda>u. id_u u = ep_user_id ep) (users d) = Some (user_of d (ep_user_id ep))"
    by (simp add: user_of_def)
  have "id_u u = ep_user_id ep \<and> u \<in> set (users d)"
    using u by (auto simp: find_Some_iff)
  then show "id_u (user_of d (ep_user_id ep)) = ep_user_id ep"
    and "user_of d (ep_user_id ep) \<in> set (users d)"
    using u by (simp_all add: user_of_def)
qed

lemma participant_rows_schema:
  assumes "schema_ok d"
  shows "participant_rows d s e eid
     = concat (map (\<lambda>ep. rows_for d s e ep (user_of d (ep_user_id ep))) (participants_of d eid))"
proof -
  have "distinct (map id_u (users d))"
    using assms by (simp add: schema_ok_def)
  then have "participant_rows d s e eid =
    concat (map (\<lambda>ep. case find (\<lambda>u. id_u u = ep_user_id ep) (users d) of
                        None \<Rightarrow> [] | Some u \<Rightarrow> rows_for d s e ep u)
       (participants_of d eid))"
    unfolding participants_of_def by (rule participant_rows_nf)
  also have "\<dots> = concat (map (\<lambda>ep. rows_for d s e ep (user_of d (ep_user_id ep)))
       (participants_of d eid))"
    by (rule arg_cong[where f=concat], rule map_cong[OF refl])
       (simp add: participants_of_def find_user_of(1)[OF assms])
  finally show ?thesis .
qed

lemma distinct_map_comp:
  "distinct (map (\<lambda>x. g (f x)) xs) \<Longrightarrow> distinct (map f xs)"
  by (induction xs) auto

lemma distinct_participant_users:
  assumes "schema_ok d"
  shows "distinct (map ep_user_id (participants_of d eid))"
proof -
  have "distinct (map (\<lambda>ep. (event_id ep, ep_user_id ep)) (participants_of d eid))"
    using assms unfolding schema_ok_def participants_of_def
    by (simp add: distinct_map_filter)
  moreover have "map (\<lambda>ep. (event_id ep, ep_user_id ep)) (participants_of d eid)
      = map (\<lambda>ep. (eid, ep_user_id ep)) (participants_of d eid)"
    by (simp add: participants_of_def)
  ultimately have "distinct (map (\<lambda>ep. Pair eid (ep_user_id ep)) (participants_of d eid))"
    by simp
  then show ?thesis
    by (rule distinct_map_comp)
qed

lemma distinct_map_fst:
  assumes "distinct (map (\<lambda>x. fst (k x)) xs)"
  shows "distinct (map k xs)"
  using assms by (rule distinct_map_comp)

lemma ranking_groups:
  assumes "schema_ok d"
  shows "group_by (\<lambda>((ep, u), e). (id_u u, email u)) (participant_rows d s e eid)
     = map (\<lambda>ep. ((ep_user_id ep, email (user_of d (ep_user_id ep))),
                   rows_for d s e ep (user_of d (ep_user_id ep))))
         (participants_of d eid)"
proof -
  have in_p: "\<And>ep. ep \<in> set (participants_of d eid) \<Longrightarrow> ep \<in> set (event_participants d)"
    by (simp add: participants_of_def)
  have h1: "distinct (map (\<lambda>ep. (ep_user_id ep, email (user_of d (ep_user_id ep))))
             (participants_of d eid))"
    by (rule distinct_map_fst) (simp add: distinct_participant_users[OF assms])
  have h2: "\<And>ep. ep \<in> set (participants_of d eid)
      \<Longrightarrow> rows_for d s e ep (user_of d (ep_user_id ep)) \<noteq> []"
    by (rule rows_for_ne)
  have h3: "(\<lambda>((ep, u), e). (id_u u, email u)) r
        = (ep_user_id ep, email (user_of d (ep_user_id ep)))"
    if ep: "ep \<in> set (participants_of d eid)"
      and r: "r \<in> set (rows_for d s e ep (user_of d (ep_user_id ep)))" for ep r
  proof -
    have "fst r = (ep, user_of d (ep_user_id ep))"
      using r by (rule rows_for_fst)
    then show ?thesis
      using find_user_of(2)[OF assms in_p[OF ep]] by (cases r) auto
  qed
  have "group_by (\<lambda>((ep, u), e). (id_u u, email u))
          (concat (map (\<lambda>ep. rows_for d s e ep (user_of d (ep_user_id ep))) (participants_of d eid)))
     = map (\<lambda>ep. ((ep_user_id ep, email (user_of d (ep_user_id ep))),
                   rows_for d s e ep (user_of d (ep_user_id ep))))
         (participants_of d eid)"
    using h1 h2 h3 by (rule group_by_blocks)
  then show ?thesis
    by (simp add: participant_rows_schema[OF assms])
qed


lemma joined_entries_user_of:
  assumes "schema_ok d" "ep \<in> set (participants_of d eid)"
  shows "joined_entries (rows_for d s e ep (user_of d (ep_user_id ep)))
     = qualifying_entries d s e (ep_user_id ep)"
proof -
  have "ep \<in> set (event_participants d)"
    using assms(2) by (simp add: participants_of_def)
  then show ?thesis
    using find_user_of(2)[OF assms(1)] by (simp add: joined_entries_rows_for)
qed

lemma select_ranking_rows:
  assumes "schema_ok d"
  shows "select_ranking d s e eid
     = run d (SelectRanking s e eid)
         (sort_key (\<lambda>r. (- total_km r, r_email r))
            (map (rank_row_of d s e) (participants_of d eid)))"
  unfolding select_ranking_def ranking_groups[OF assms]
  by (simp add: comp_def rank_row_of_def joined_entries_user_of[OF assms] cong: map_cong)



lemma inj_email_user_of:
  assumes "schema_ok d"
    and "a \<in> set (participants_of d eid)" and "b \<in> set (participants_of d eid)"
    and "email (user_of d (ep_user_id a)) = email (user_of d (ep_user_id b))"
  shows "ep_user_id a = ep_user_id b"
proof -
  have pa: "a \<in> set (event_participants d)" and pb: "b \<in> set (event_participants d)"
    using assms(2,3) by (simp_all add: participants_of_def)
  have "inj_on email (set (users d))"
    using assms(1) by (simp add: schema_ok_def distinct_map)
  then have "user_of d (ep_user_id a) = user_of d (ep_user_id b)"
    using assms(4) find_user_of(3)[OF assms(1) pa] find_user_of(3)[OF assms(1) pb]
    by (rule inj_onD)
  then have "id_u (user_of d (ep_user_id a)) = id_u (user_of d (ep_user_id b))"
    by (rule arg_cong)
  then show ?thesis
    unfolding find_user_of(2)[OF assms(1) pa] find_user_of(2)[OF assms(1) pb] .
qed

lemma distinct_rank_emails:
  assumes "schema_ok d"
  shows "distinct (map r_email (map (rank_row_of d s e) (participants_of d eid)))"
proof -
  have "distinct (map ep_user_id (participants_of d eid))"
    by (rule distinct_participant_users[OF assms])
  then have "distinct (participants_of d eid)"
    and "inj_on ep_user_id (set (participants_of d eid))"
    by (simp_all add: distinct_map)
  moreover have "inj_on (\<lambda>ep. email (user_of d (ep_user_id ep))) (set (participants_of d eid))"
  proof (rule inj_onI)
    fix a b
    assume a: "a \<in> set (participants_of d eid)" and b: "b \<in> set (participants_of d eid)"
      and eq: "email (user_of d (ep_user_id a)) = email (user_of d (ep_user_id b))"
    have "ep_user_id a = ep_user_id b"
      using assms a b eq by (rule inj_email_user_of)
    with \<open>inj_on ep_user_id (set (participants_of d eid))\<close> show "a = b"
      using a b by (rule inj_onD)
  qed
  ultimately show ?thesis
    by (simp add: distinct_map comp_def rank_row_of_def)
qed

lemma strict_order_unique:
  fixes key :: "'a \<Rightarrow> 'k::linorder"
  assumes "sorted_wrt (\<lambda>a b. key a < key b) xs"
    and "sorted_wrt (\<lambda>a b. key a < key b) ys"
    and "set ys = set xs"
  shows "ys = xs"
proof -
  have sx: "sorted (map key xs)" "distinct (map key xs)"
    and sy: "sorted (map key ys)" "distinct (map key ys)"
    using assms(1,2) strict_sorted_iff[of "map key xs"] strict_sorted_iff[of "map key ys"]
    by (simp_all add: sorted_wrt_map)
  have "set (map key ys) = set (map key xs)"
    using assms(3) by simp
  then have eq: "map key ys = map key xs"
    using sx sy by (intro sorted_distinct_set_unique)
  have "inj_on key (set ys \<union> set xs)"
    using sx(2) assms(3) by (simp add: distinct_map)
  then show ?thesis
    using eq by (simp add: inj_on_map_eq_map)
qed

lemma distinct_map_sort_key:
  "distinct (map f xs) \<Longrightarrow> distinct (map f (sort_key g xs))"
  by (simp add: distinct_map)

lemma rank_key_less:
  "((- total_km a, r_email a) < (- total_km b, r_email b))
     = (total_km b < total_km a \<or> (total_km a = total_km b \<and> r_email a < r_email b))"
  by (auto simp: less_prod_def)

text \<open>
  C4. For a store that satisfies the constraints of the schema, the rows of a successful
  ranking response are strictly ordered: descending by total km, and among equal totals
  ascending by email. Hence no two rows tie on the order, and the order is the only one
  that these rows admit: any list of the same rows that is ordered in this way is the
  response. The response is a function of the store, so every call returns it.
\<close>

theorem ranking_order:
  assumes "schema_ok d" and "get_ranking d eventId = (200, Ranking ev rows goal)"
  shows "sorted_wrt (\<lambda>a b. total_km b < total_km a
                          \<or> (total_km a = total_km b \<and> r_email a < r_email b)) rows
       \<and> (\<forall>rows'. set rows' = set rows
             \<and> sorted_wrt (\<lambda>a b. total_km b < total_km a
                          \<or> (total_km a = total_km b \<and> r_email a < r_email b)) rows'
           \<longrightarrow> rows' = rows)"
proof -
  let ?key = "\<lambda>r. (- total_km r, r_email r)"
  let ?unsorted = "map (rank_row_of d (start_date ev) (end_date ev)) (participants_of d eventId)"
  have "select_ranking d (start_date ev) (end_date ev) eventId = Inr rows"
    using assms(2)
    by (auto simp: get_ranking_def select_event_def run_def find_Some_iff
        split: if_splits option.splits sum.splits)
  then have rows: "rows = sort_key ?key ?unsorted"
    unfolding select_ranking_rows[OF assms(1)] by (auto simp: run_def split: option.splits)
  have "distinct (map r_email ?unsorted)"
    by (rule distinct_rank_emails[OF assms(1)])
  then have "distinct (map (\<lambda>r. snd (?key r)) ?unsorted)"
    by simp
  then have "distinct (map ?key ?unsorted)"
    by (rule distinct_map_comp)
  then have "distinct (map ?key rows)"
    unfolding rows by (rule distinct_map_sort_key)
  moreover have "sorted (map ?key rows)"
    unfolding rows by (rule sorted_sort_key)
  ultimately have "sorted_wrt (<) (map ?key rows)"
    by (simp add: strict_sorted_iff)
  then have strict: "sorted_wrt (\<lambda>a b. ?key a < ?key b) rows"
    by (simp add: sorted_wrt_map)
  show ?thesis
    using strict strict_order_unique[of ?key rows] unfolding rank_key_less by blast
qed







section \<open>The example ranking\<close>

lemmas query_defs =
  get_ranking_def select_event_def select_ranking_def select_standing_def
  participant_rows_def inner_join_def left_join_def group_by_def joined_entries_def run_def
  List.map_filter_def

lemma schema_ok_ranking_store: "schema_ok ranking_store"
  by (simp add: schema_ok_def scenario_defs)

lemma get_ranking_ranking_store:
  "get_ranking ranking_store 1
     = (200, Ranking (scenario_event\<lparr>gender_restriction := ''both''\<rparr>)
          [\<lparr>r_id = 1, r_email = ''a@x.com'', total_km = 12.5, entry_count = 2\<rparr>,
           \<lparr>r_id = 2, r_email = ''b@x.com'', total_km = 12.5, entry_count = 1\<rparr>,
           \<lparr>r_id = 4, r_email = ''c@x.com'', total_km = 0, entry_count = 0\<rparr>] 50)"
  by (simp add: query_defs scenario_defs less_eq_prod_def)


text \<open>
  The scenario of C4: a and b both have 12.5 km, b joined and logged first, and a, whose
  email sorts first, is ranked ahead of b.
\<close>

theorem ranking_order_witness:
  "get_ranking ranking_store 1
     = (200, Ranking (scenario_event\<lparr>gender_restriction := ''both''\<rparr>)
          [\<lparr>r_id = 1, r_email = ''a@x.com'', total_km = 12.5, entry_count = 2\<rparr>,
           \<lparr>r_id = 2, r_email = ''b@x.com'', total_km = 12.5, entry_count = 1\<rparr>,
           \<lparr>r_id = 4, r_email = ''c@x.com'', total_km = 0, entry_count = 0\<rparr>] 50)
   \<and> sorted_wrt (\<lambda>a b. total_km b < total_km a
                       \<or> (total_km a = total_km b \<and> r_email a < r_email b))
          [\<lparr>r_id = 1, r_email = ''a@x.com'', total_km = 12.5, entry_count = 2\<rparr>,
           \<lparr>r_id = 2, r_email = ''b@x.com'', total_km = 12.5, entry_count = 1\<rparr>,
           \<lparr>r_id = 4, r_email = ''c@x.com'', total_km = 0, entry_count = 0\<rparr>]"
  by (rule conjI [OF get_ranking_ranking_store
        conjunct1 [OF ranking_order [OF schema_ok_ranking_store get_ranking_ranking_store]]])



section \<open>Properties of the list of events\<close>


lemma today: "toISOString_date 1718452800000 = ''2024-06-15''"
  by code_simp



lemma select_events_faulty:
  "select_events (faulty_store (SelectStanding ''2024-06-01'' ''2024-06-30'' 1)) 1
       ''2024-06-15''
     = Inr [\<lparr>l_event = scenario_event\<lparr>gender_restriction := ''both''\<rparr>,
             created_by_email = ''admin'', has_joined = True\<rparr>]"
  by (simp add: select_events_def inner_join_def left_join_def run_def scenario_defs
      faulty_store_def)

lemma select_standing_faulty:
  "select_standing (faulty_store (SelectStanding ''2024-06-01'' ''2024-06-30'' 1))
      ''2024-06-01'' ''2024-06-30'' 1 = Inl SQLITE_IOERR"
  by (simp add: select_standing_def run_def faulty_store_def)



text \<open>
  C2, as the claim states it: a failure of the per-event ranking query is never presented
  as an empty or zeroed ranking. User 1 has joined the event and has 12.5 km in it; the
  driver fails the ranking query of the list of events. The response has status 200 and
  presents the event with \<open>user_rank\<close> null, \<open>total_participants\<close> 0 and zero totals.
\<close>

theorem swallowed_ranking_failure_counterexample:
  "select_standing (faulty_store (SelectStanding ''2024-06-01'' ''2024-06-30'' 1))
      ''2024-06-01'' ''2024-06-30'' 1 = Inl SQLITE_IOERR
   \<and> list_events 1718424000000
        (faulty_store (SelectStanding ''2024-06-01'' ''2024-06-30'' 1)) 1
     = (200, Events
         [\<lparr>v_listed = \<lparr>l_event = scenario_event\<lparr>gender_restriction := ''both''\<rparr>,
                        created_by_email = ''admin'', has_joined = True\<rparr>,
           user_rank = None, total_participants = 0, user_total_km = Some 0,
           user_total_hours = Some 0, user_total_days = Some 0\<rparr>])"
  by (simp add: list_events_def today select_events_faulty event_with_ranking_def
      select_standing_faulty scenario_event_def)

text \<open>
  C2, amended: the route of the ranking of an event reports a failure of the event lookup
  and a failure of the ranking query as errors with status 500, and the list of events
  reports a failure of its events query with status 500. A failure of the per-event
  ranking query inside the list of events is not reported: that event is presented with
  \<open>user_rank\<close> null, \<open>total_participants\<close> 0 and totals 0, and the list succeeds whenever
  its events query does.
\<close>

theorem ranking_failures:
  "(0 < eventId \<and> fault d (SelectEvent eventId) = Some err
      \<longrightarrow> get_ranking d eventId = (500, Error ''Database error''))
   \<and> (0 < eventId \<and> select_event d eventId = Inr (Some ev)
        \<and> fault d (SelectRanking (start_date ev) (end_date ev) eventId) = Some err
      \<longrightarrow> get_ranking d eventId = (500, Error ''Failed to fetch ranking''))
   \<and> (fault d (SelectEvents userId (toISOString_date (now + 8 * 60 * 60 * 1000))) = Some err
      \<longrightarrow> list_events now d userId = (500, Error ''Failed to fetch events''))
   \<and> (has_joined lev
        \<and> fault d (SelectStanding (start_date (l_event lev)) (end_date (l_event lev))
                     (id_ev (l_event lev))) = Some err
      \<longrightarrow> event_with_ranking d userId lev
          = \<lparr>v_listed = lev, user_rank = None, total_participants = 0,
             user_total_km = Some 0, user_total_hours = Some 0, user_total_days = Some 0\<rparr>)
   \<and> (fault d (SelectEvents userId (toISOString_date (now + 8 * 60 * 60 * 1000))) = None
      \<longrightarrow> fst (list_events now d userId) = 200)"
  by (auto simp: get_ranking_def select_event_def select_ranking_def run_def list_events_def
      select_events_def event_with_ranking_def select_standing_def Let_def)

theorem ranking_failures_witness:
  "get_ranking (faulty_store (SelectEvent 1)) 1 = (500, Error ''Database error'')
   \<and> get_ranking (faulty_store (SelectRanking ''2024-06-01'' ''2024-06-30'' 1)) 1
       = (500, Error ''Failed to fetch ranking'')
   \<and> list_events 1718424000000 (faulty_store (SelectEvents 1 ''2024-06-15'')) 1
       = (500, Error ''Failed to fetch events'')
   \<and> event_with_ranking (faulty_store (SelectStanding ''2024-06-01'' ''2024-06-30'' 1)) 1
        \<lparr>l_event = scenario_event\<lparr>gender_restriction := ''both''\<rparr>,
         created_by_email = ''admin'', has_joined = True\<rparr>
       = \<lparr>v_listed = \<lparr>l_event = scenario_event\<lparr>gender_restriction := ''both''\<rparr>,
                       created_by_email = ''admin'', has_joined = True\<rparr>,
          user_rank = None, total_participants = 0, user_total_km = Some 0,
          user_total_hours = Some 0, user_total_days = Some 0\<rparr>
   \<and> fst (list_events 1718424000000
             (faulty_store (SelectStanding ''2024-06-01'' ''2024-06-30'' 1)) 1) = 200"
proof -
  let ?ev = "scenario_event\<lparr>gender_restriction := ''both''\<rparr>"
  let ?lev = "\<lparr>l_event = ?ev, created_by_email = ''admin'', has_joined = True\<rparr>"
  let ?standing = "SelectStanding ''2024-06-01'' ''2024-06-30'' 1"
  have t: "toISOString_date (1718424000000 + 8 * 60 * 60 * 1000) = ''2024-06-15''"
    using today by simp
  have c1: "get_ranking (faulty_store (SelectEvent 1)) 1 = (500, Error ''Database error'')"
    using ranking_failures [where d = "faulty_store (SelectEvent 1)" and eventId = 1
        and err = SQLITE_IOERR, THEN conjunct1]
    by (simp add: faulty_store_def)
  have c2: "get_ranking (faulty_store (SelectRanking ''2024-06-01'' ''2024-06-30'' 1)) 1
       = (500, Error ''Failed to fetch ranking'')"
    using ranking_failures [where d = "faulty_store (SelectRanking ''2024-06-01'' ''2024-06-30'' 1)"
        and eventId = 1 and err = SQLITE_IOERR and ev = ?ev, THEN conjunct2, THEN conjunct1]
    by (simp add: faulty_store_def select_event_def run_def scenario_defs)
  have c3: "list_events 1718424000000 (faulty_store (SelectEvents 1 ''2024-06-15'')) 1
       = (500, Error ''Failed to fetch events'')"
    using ranking_failures [where d = "faulty_store (SelectEvents 1 ''2024-06-15'')"
        and userId = 1 and now = 1718424000000 and err = SQLITE_IOERR,
        THEN conjunct2, THEN conjunct2, THEN conjunct1]
    unfolding t by (simp add: faulty_store_def)
  have c4: "event_with_ranking (faulty_store ?standing) 1 ?lev
       = \<lparr>v_listed = ?lev, user_rank = None, total_participants = 0,
          user_total_km = Some 0, user_total_hours = Some 0, user_total_days = Some 0\<rparr>"
    using ranking_failures [where d = "faulty_store ?standing" and lev = ?lev
        and userId = 1 and err = SQLITE_IOERR,
        THEN conjunct2, THEN conjunct2, THEN conjunct2, THEN conjunct1]
    by (simp add: faulty_store_def scenario_event_def)
  have c5: "fst (list_events 1718424000000 (faulty_store ?standing) 1) = 200"
    using ranking_failures [where d = "faulty_store ?standing"
        and userId = 1 and now = 1718424000000,
        THEN conjunct2, THEN conjunct2, THEN conjunct2, THEN conjunct2]
    unfolding t by (simp add: faulty_store_def no_fault_def)
  show ?thesis
    using c1 c2 c3 c4 c5 by (intro conjI)
qed


section \<open>Properties of the month window\<close>



lemma length_digits_of [simp]: "length (digits_of w n) = w"
  by (induction w arbitrary: n) simp_all

lemma digit_char_cases:
  "k mod 10 = 0 \<or> k mod 10 = 1 \<or> k mod 10 = 2 \<or> k mod 10 = 3 \<or> k mod 10 = 4
   \<or> k mod 10 = 5 \<or> k mod 10 = 6 \<or> k mod 10 = 7 \<or> k mod 10 = 8 \<or> k mod 10 = (9::nat)"
  by presburger

lemma is_digit_digit_char [simp]: "is_digit (digit_char k)"
  using digit_char_cases[of k] by (auto simp: is_digit_def digit_char_def)

lemma digit_val_digit_char [simp]: "digit_val (digit_char k) = k mod 10"
  using digit_char_cases[of k] by (auto simp: digit_val_def digit_char_def)


lemma digit_char_neq_dash [simp]: "digit_char k \<noteq> CHR ''-''"
  using digit_char_cases[of k] by (auto simp: digit_char_def)



























end
